theory Spec2Isabelle
  imports Main "HOL-Library.Word" "HOL-Library.Signed_Division"
begin

unbundle bit_operations_syntax

section \<open>The TCP skeleton of \<^verbatim>\<open>tcp_skeleton.c\<close>\<close>

text \<open>
  A shallow embedding of \<^verbatim>\<open>src/tcp_skeleton.c\<close> in its default build: the macros
  \<^verbatim>\<open>TS_ENABLE_SSL\<close>, \<^verbatim>\<open>TS_ENABLE_IPV6\<close>, \<^verbatim>\<open>TS_ENABLE_HEXDUMP\<close>, \<^verbatim>\<open>TS_ENABLE_DEBUG\<close> and
  \<^verbatim>\<open>NDEBUG\<close> are undefined, and \<^verbatim>\<open>IOBUF_RESIZE_MULTIPLIER\<close> has its default 2.0.

  C values of type \<^verbatim>\<open>int\<close> are HOL integers. Where the C arithmetic would leave the
  range of \<^verbatim>\<open>int\<close> (undefined behaviour) or an \<^verbatim>\<open>assert\<close> would abort the process, the
  model returns a \<open>fault\<close> instead of a result.
\<close>

datatype fault = Assertion_Failed | Signed_Overflow

definition INT_MAX :: int where
  "INT_MAX = 2147483647"

subsection \<open>Byte buffer\<close>

text \<open>
  \<^verbatim>\<open>struct iobuf { char *buf; int len; int size; }\<close>. The field \<open>buf\<close> holds the bytes
  stored at the start of the allocated region; \<open>len\<close> and \<open>size_iobuf\<close> are the C fields
  \<^verbatim>\<open>len\<close> and \<^verbatim>\<open>size\<close>.
\<close>

record iobuf =
  buf :: string
  len :: int
  size_iobuf :: int

text \<open>The two assertions at the head of \<^verbatim>\<open>iobuf_append\<close>: the data-model invariant.\<close>

definition iobuf_ok :: "iobuf \<Rightarrow> bool" where
  "iobuf_ok io = (0 \<le> len io \<and> len io \<le> size_iobuf io)"

text \<open>\<^verbatim>\<open>iobuf_init\<close>; \<open>malloc_ok\<close> says whether \<^verbatim>\<open>TS_MALLOC\<close> returns storage.\<close>

definition iobuf_init :: "int \<Rightarrow> bool \<Rightarrow> iobuf" where
  "iobuf_init sz malloc_ok =
     (if 0 < sz \<and> malloc_ok then \<lparr>buf = [], len = 0, size_iobuf = sz\<rparr>
      else \<lparr>buf = [], len = 0, size_iobuf = 0\<rparr>)"

definition iobuf_free :: "iobuf \<Rightarrow> iobuf" where
  "iobuf_free io = iobuf_init 0 False"

text \<open>
  \<^verbatim>\<open>iobuf_append(io, buf, len)\<close> with the bytes \<open>bs\<close> behind \<^verbatim>\<open>buf\<close> and the count \<open>n\<close>;
  \<open>realloc_ok\<close> says whether \<^verbatim>\<open>TS_REALLOC\<close> succeeds when it is called. The result is
  the returned \<^verbatim>\<open>len\<close> and the buffer afterwards. With the default multiplier 2.0 the
  product \<^verbatim>\<open>new_len * mult\<close> is exact in \<^verbatim>\<open>double\<close>, and the cast gives \<open>2 * new_len\<close>
  when that is an \<^verbatim>\<open>int\<close>.
\<close>

definition iobuf_append :: "iobuf \<Rightarrow> string \<Rightarrow> int \<Rightarrow> bool \<Rightarrow> fault + (int \<times> iobuf)" where
  "iobuf_append io bs n realloc_ok =
     (if 0 \<le> len io \<and> len io \<le> size_iobuf io then
        if n \<le> 0 then Inr (n, io)
        else if INT_MAX < len io + n then Inl Signed_Overflow
        else
          let new_len = len io + n in
          if new_len < size_iobuf io then
            Inr (n, io\<lparr>buf := take (nat (len io)) (buf io) @ take (nat n) bs, len := new_len\<rparr>)
          else if INT_MAX < 2 * new_len then Inl Signed_Overflow
          else if realloc_ok then
            Inr (n, io\<lparr>buf := take (nat (len io)) (buf io) @ take (nat n) bs,
                       len := new_len, size_iobuf := 2 * new_len\<rparr>)
          else Inr (0, io)
      else Inl Assertion_Failed)"

text \<open>\<^verbatim>\<open>iobuf_remove\<close>: drop the first \<open>n\<close> bytes; nothing happens when \<open>n\<close> is out of range.\<close>

definition iobuf_remove :: "iobuf \<Rightarrow> int \<Rightarrow> iobuf" where
  "iobuf_remove io n =
     (if 0 \<le> n \<and> n \<le> len io
      then io\<lparr>buf := drop (nat n) (take (nat (len io)) (buf io)), len := len io - n\<rparr>
      else io)"

text \<open>
  The calls of \<^verbatim>\<open>iobuf_append\<close> whose arithmetic stays inside \<^verbatim>\<open>int\<close>: the sum
  \<^verbatim>\<open>io->len + len\<close>, and the new capacity when the buffer has to grow.
\<close>

definition append_in_range :: "iobuf \<Rightarrow> int \<Rightarrow> bool" where
  "append_in_range io n =
     (n \<le> 0 \<or> (len io + n \<le> INT_MAX \<and> (len io + n < size_iobuf io \<or> 2 * (len io + n) \<le> INT_MAX)))"

subsection \<open>Address parser\<close>

text \<open>
  The C library's \<^verbatim>\<open>sscanf\<close> for the two formats the parser uses. A \<^verbatim>\<open>%u\<close> directive
  skips white space, takes an optional sign and then at least one decimal digit. The
  value is what \<^verbatim>\<open>strtoul\<close> gives with a 64-bit \<^verbatim>\<open>unsigned long\<close>, stored in an
  \<^verbatim>\<open>unsigned int\<close>: the digits' value reduced modulo \<open>2^32\<close> (negated after a minus
  sign), and \<open>0xFFFFFFFF\<close> when the digits do not fit in 64 bits (ISO C leaves a value
  out of range undefined; this is what glibc stores). A character of the format
  other than a directive matches that character only. \<^verbatim>\<open>%n\<close> stores the number of
  characters consumed so far.
\<close>

definition isspace :: "char \<Rightarrow> bool" where
  "isspace c = (c \<in> {CHR '' '', CHR 0x09, CHR 0x0A, CHR 0x0B, CHR 0x0C, CHR 0x0D})"

definition isdigit :: "char \<Rightarrow> bool" where
  "isdigit c = (48 \<le> (of_char c :: nat) \<and> (of_char c :: nat) \<le> 57)"

fun decimal :: "nat \<Rightarrow> string \<Rightarrow> nat" where
  "decimal acc [] = acc"
| "decimal acc (c # cs) = decimal (10 * acc + (of_char c - 48)) cs"

definition scan_u :: "string \<Rightarrow> (32 word \<times> string) option" where
  "scan_u s =
     (let s1 = dropWhile isspace s;
          neg = (s1 \<noteq> [] \<and> hd s1 = CHR ''-'');
          s2 = (if s1 \<noteq> [] \<and> (hd s1 = CHR ''-'' \<or> hd s1 = CHR ''+'') then tl s1 else s1);
          ds = takeWhile isdigit s2
      in if ds = [] then None
         else Some (if 18446744073709551616 \<le> decimal 0 ds then 0xFFFFFFFF
                    else if neg then - of_nat (decimal 0 ds) else of_nat (decimal 0 ds),
                    dropWhile isdigit s2))"

definition scan_lit :: "char \<Rightarrow> string \<Rightarrow> string option" where
  "scan_lit c s = (case s of [] \<Rightarrow> None | x # r \<Rightarrow> if x = c then Some r else None)"

text \<open>
  \<^verbatim>\<open>sscanf(str, "%u.%u.%u.%u:%u%n", &a, &b, &c, &d, &port, &len) == 5\<close>: \<open>Some\<close> of the
  six stored values when all five conversions succeed, \<open>None\<close> otherwise (then neither
  \<^verbatim>\<open>port\<close> nor \<^verbatim>\<open>len\<close> has been written).
\<close>

definition sscanf_ipv4 ::
  "string \<Rightarrow> (32 word \<times> 32 word \<times> 32 word \<times> 32 word \<times> 32 word \<times> int) option" where
  "sscanf_ipv4 str =
     (case scan_u str of None \<Rightarrow> None | Some (a, s1) \<Rightarrow>
      case scan_lit CHR ''.'' s1 of None \<Rightarrow> None | Some s2 \<Rightarrow>
      case scan_u s2 of None \<Rightarrow> None | Some (b, s3) \<Rightarrow>
      case scan_lit CHR ''.'' s3 of None \<Rightarrow> None | Some s4 \<Rightarrow>
      case scan_u s4 of None \<Rightarrow> None | Some (c, s5) \<Rightarrow>
      case scan_lit CHR ''.'' s5 of None \<Rightarrow> None | Some s6 \<Rightarrow>
      case scan_u s6 of None \<Rightarrow> None | Some (d, s7) \<Rightarrow>
      case scan_lit CHR '':'' s7 of None \<Rightarrow> None | Some s8 \<Rightarrow>
      case scan_u s8 of None \<Rightarrow> None | Some (port, s9) \<Rightarrow>
        Some (a, b, c, d, port, int (length str) - int (length s9)))"

text \<open>\<^verbatim>\<open>sscanf(str, "%u%n", &port, &len) == 1\<close>.\<close>

definition sscanf_port :: "string \<Rightarrow> (32 word \<times> int) option" where
  "sscanf_port str =
     (case scan_u str of None \<Rightarrow> None
      | Some (port, s1) \<Rightarrow> Some (port, int (length str) - int (length s1)))"

text \<open>
  \<^verbatim>\<open>str[i]\<close> for a C string whose characters before the terminating NUL are \<open>str\<close>.
\<close>

definition str_at :: "string \<Rightarrow> int \<Rightarrow> char" where
  "str_at str i = (if 0 \<le> i \<and> nat i < length str then str ! nat i else CHR 0x00)"

text \<open>
  A field in network byte order is the host value it encodes under a constructor:
  \<^verbatim>\<open>htons\<close> and \<^verbatim>\<open>htonl\<close> wrap, \<^verbatim>\<open>ntohs\<close> and \<^verbatim>\<open>ntohl\<close> unwrap, on every host.
\<close>

datatype net16 = Net16 "16 word"

datatype net32 = Net32 "32 word"

definition htons :: "16 word \<Rightarrow> net16" where
  "htons x = Net16 x"

fun ntohs :: "net16 \<Rightarrow> 16 word" where
  "ntohs (Net16 x) = x"

definition htonl :: "32 word \<Rightarrow> net32" where
  "htonl x = Net32 x"

fun ntohl :: "net32 \<Rightarrow> 32 word" where
  "ntohl (Net32 x) = x"

datatype sa_family = AF_INET | AF_INET6

text \<open>\<^verbatim>\<open>union socket_address\<close>, read through its member \<^verbatim>\<open>sin\<close> (IPv6 is not compiled in).\<close>

record socket_address =
  sin_family :: sa_family
  sin_port :: net16
  sin_addr :: net32

text \<open>
  \<^verbatim>\<open>parse_port_string(str, sa)\<close>: the returned \<^verbatim>\<open>int\<close> and the address written to
  \<^verbatim>\<open>*sa\<close>. When neither format matches, \<^verbatim>\<open>port\<close> is set to 0 and \<^verbatim>\<open>len\<close> still has its
  initial value 0.
\<close>

definition parse_port_string :: "string \<Rightarrow> int \<times> socket_address" where
  "parse_port_string str =
     (let sa = \<lparr>sin_family = AF_INET, sin_port = htons 0, sin_addr = htonl 0\<rparr> in
      case sscanf_ipv4 str of
        Some (a, b, c, d, port, n) \<Rightarrow>
          (if port \<le> 0xffff \<and> str_at str n = CHR 0x00 then 1 else 0,
           sa\<lparr>sin_addr := htonl (push_bit 24 a OR push_bit 16 b OR push_bit 8 c OR d),
              sin_port := htons (ucast port)\<rparr>)
      | None \<Rightarrow>
          (case sscanf_port str of
             Some (port, n) \<Rightarrow>
               (if port \<le> 0xffff \<and> str_at str n = CHR 0x00 then 1 else 0,
                sa\<lparr>sin_port := htons (ucast port)\<rparr>)
           | None \<Rightarrow>
               (if (0 :: 32 word) \<le> 0xffff \<and> str_at str 0 = CHR 0x00 then 1 else 0, sa)))"

subsection \<open>The operating system\<close>

text \<open>
  The system calls are answered by an oracle: a record of functions from the number of
  calls answered so far (and, for some, the arguments) to the call's outcome. Every
  sequence of outcomes the operating system can produce is the behaviour of some
  oracle, so a statement about all oracles covers them all.
\<close>

datatype errno = EINTR | EINPROGRESS | EAGAIN | EWOULDBLOCK | EOTHER nat

datatype ts_event = TS_POLL | TS_ACCEPT | TS_CONNECT | TS_RECV | TS_SEND | TS_CLOSE

record os_oracle =
  sys_time :: "nat \<Rightarrow> int"
  sys_malloc :: "nat \<Rightarrow> bool"
  sys_realloc :: "nat \<Rightarrow> bool"
  sys_socket :: "nat \<Rightarrow> int"
  sys_setsockopt :: "nat \<Rightarrow> int"
  sys_bind :: "nat \<Rightarrow> socket_address \<Rightarrow> int"
  sys_listen :: "nat \<Rightarrow> int"
  sys_getsockname :: "nat \<Rightarrow> socket_address option"
  sys_accept :: "nat \<Rightarrow> int"
  sys_gethostbyname :: "nat \<Rightarrow> string \<Rightarrow> net32 option"
  sys_connect :: "nat \<Rightarrow> int \<Rightarrow> socket_address \<Rightarrow> int \<times> errno"
  sys_getsockopt :: "nat \<Rightarrow> int \<times> int"
  sys_recv :: "nat \<Rightarrow> int \<Rightarrow> int \<times> errno \<times> string"
  sys_send :: "nat \<Rightarrow> int \<Rightarrow> string \<Rightarrow> int \<times> errno"
  sys_select :: "nat \<Rightarrow> int \<Rightarrow> int set \<Rightarrow> int set \<Rightarrow> int \<times> int \<Rightarrow> int \<times> int set \<times> int set"

text \<open>
  The world outside the server: the descriptors that are open, the events emitted so
  far (every call of \<^verbatim>\<open>call_user\<close>, with the socket of its connection), and the number
  of system calls answered.
\<close>

record os_world =
  open_socks :: "int set"
  events :: "(int \<times> ts_event) list"
  clock :: nat

definition tick :: "os_world \<Rightarrow> os_world" where
  "tick w = w\<lparr>clock := Suc (clock w)\<rparr>"

definition INVALID_SOCKET :: int where
  "INVALID_SOCKET = - 1"

text \<open>A descriptor returned by \<^verbatim>\<open>socket\<close> or \<^verbatim>\<open>accept\<close> is open; \<^verbatim>\<open>closesocket\<close> closes it.\<close>

definition opened :: "int \<Rightarrow> os_world \<Rightarrow> os_world" where
  "opened s w = (if s = INVALID_SOCKET then w else w\<lparr>open_socks := insert s (open_socks w)\<rparr>)"

definition closesocket :: "int \<Rightarrow> os_world \<Rightarrow> os_world" where
  "closesocket s w = w\<lparr>open_socks := open_socks w - {s}\<rparr>"

text \<open>\<^verbatim>\<open>is_error(n)\<close>, with the value of \<^verbatim>\<open>errno\<close> the call that returned \<open>n\<close> left.\<close>

definition is_error :: "int \<Rightarrow> errno \<Rightarrow> bool" where
  "is_error n e =
     (n = 0 \<or> (n < 0 \<and> e \<noteq> EINTR \<and> e \<noteq> EINPROGRESS \<and> e \<noteq> EAGAIN \<and> e \<noteq> EWOULDBLOCK))"

subsection \<open>Connections and the server\<close>

text \<open>
  Modelled from the spec: the header \<^verbatim>\<open>tcp_skeleton.h\<close>, which declares the structures,
  the event codes and the \<^verbatim>\<open>TSF_\<close> flag masks, is not among the sources. The spec gives six
  independent flag bits, OR-combined; a flag word is the set of the bits that are set.
\<close>

datatype ts_flag =
  TSF_ACCEPTED | TSF_CONNECTING | TSF_SSL_HANDSHAKE_DONE | TSF_FINISHED_SENDING_DATA |
  TSF_BUFFER_BUT_DONT_SEND | TSF_CLOSE_IMMEDIATELY

text \<open>
  \<^verbatim>\<open>struct ts_connection\<close>. The links \<^verbatim>\<open>prev\<close> and \<^verbatim>\<open>next\<close> are the connection's place in
  the server's list; \<^verbatim>\<open>server\<close> is the server that holds the list.
\<close>

record ts_connection =
  sock :: int
  flags :: "ts_flag set"
  recv_iobuf :: iobuf
  send_iobuf :: iobuf
  last_io_time :: int
  connection_data :: nat

text \<open>
  The user's callback reads and writes the connection it is given and the \<^verbatim>\<open>int\<close> behind
  the payload pointer (\<open>None\<close> is \<^verbatim>\<open>NULL\<close>); its return value is ignored by every caller.
  It does not touch other connections or the list.
\<close>

type_synonym ts_callback = "ts_connection \<Rightarrow> ts_event \<Rightarrow> int option \<Rightarrow> ts_connection \<times> int"

text \<open>
  \<^verbatim>\<open>struct ts_server\<close>: \<open>active_connections\<close> is the list from its head along \<^verbatim>\<open>next\<close>;
  \<^verbatim>\<open>ADD_CONNECTION\<close> puts a connection in front.
\<close>

record ts_server =
  listening_sock :: int
  active_connections :: "ts_connection list"
  server_data :: nat
  callback :: "ts_callback option"

definition zeroed_iobuf :: iobuf where
  "zeroed_iobuf = \<lparr>buf = [], len = 0, size_iobuf = 0\<rparr>"

text \<open>A connection record after \<^verbatim>\<open>memset(c, 0, sizeof(*c))\<close>.\<close>

definition zeroed_connection :: ts_connection where
  "zeroed_connection =
     \<lparr>sock = 0, flags = {}, recv_iobuf = zeroed_iobuf, send_iobuf = zeroed_iobuf,
      last_io_time = 0, connection_data = 0\<rparr>"

definition ts_server_init :: "nat \<Rightarrow> ts_callback option \<Rightarrow> ts_server" where
  "ts_server_init data cb =
     \<lparr>listening_sock = INVALID_SOCKET, active_connections = [], server_data = data,
      callback = cb\<rparr>"

text \<open>
  \<^verbatim>\<open>call_user(conn, ev, p)\<close> with \<open>cb\<close> the server's callback: the event is emitted, and
  the callback, when there is one, runs on the connection and the payload.
\<close>

definition call_user ::
  "ts_callback option \<Rightarrow> ts_connection \<Rightarrow> ts_event \<Rightarrow> int option \<Rightarrow> os_world \<Rightarrow>
   ts_connection \<times> int option \<times> os_world" where
  "call_user cb conn ev p w =
     (let w' = w\<lparr>events := events w @ [(sock conn, ev)]\<rparr> in
      case cb of
        None \<Rightarrow> (conn, p, w')
      | Some f \<Rightarrow>
          (fst (f conn ev p), (case p of None \<Rightarrow> None | Some v \<Rightarrow> Some (snd (f conn ev p))), w'))"

text \<open>
  \<^verbatim>\<open>close_conn(conn)\<close>: the \<^verbatim>\<open>CLOSE\<close> event, then the socket is closed and the record and
  its buffers are freed. \<^verbatim>\<open>REMOVE_CONNECTION\<close> takes the record off the list: the loops
  below drop a connection they close.
\<close>

definition close_conn :: "ts_callback option \<Rightarrow> ts_connection \<Rightarrow> os_world \<Rightarrow> os_world" where
  "close_conn cb conn w =
     (case call_user cb conn TS_CLOSE None w of
        (conn', p, w1) \<Rightarrow> closesocket (sock conn') w1)"

subsection \<open>Listening and connecting\<close>

text \<open>
  \<^verbatim>\<open>open_listening_socket(sa)\<close>: the returned socket and the address after the call
  (\<^verbatim>\<open>getsockname\<close> overwrites it when it succeeds). The \<^verbatim>\<open>&&\<close> chain stops at the first
  call that fails. \<^verbatim>\<open>set_non_blocking_mode\<close> changes a mode of the descriptor that the
  model does not record.
\<close>

definition open_listening_socket ::
  "os_oracle \<Rightarrow> socket_address \<Rightarrow> os_world \<Rightarrow> int \<times> socket_address \<times> os_world" where
  "open_listening_socket os sa w =
     (let s = sys_socket os (clock w); w1 = opened s (tick w) in
      if s = INVALID_SOCKET then (INVALID_SOCKET, sa, w1)
      else if sys_setsockopt os (clock w1) \<noteq> 0 then
        (INVALID_SOCKET, sa, closesocket s (tick w1))
      else if sys_bind os (clock (tick w1)) sa \<noteq> 0 then
        (INVALID_SOCKET, sa, closesocket s (tick (tick w1)))
      else if sys_listen os (clock (tick (tick w1))) \<noteq> 0 then
        (INVALID_SOCKET, sa, closesocket s (tick (tick (tick w1))))
      else
        (s,
         (case sys_getsockname os (clock (tick (tick (tick w1)))) of
            None \<Rightarrow> sa
          | Some sa' \<Rightarrow> sa'),
         tick (tick (tick (tick w1)))))"

text \<open>
  \<^verbatim>\<open>ts_bind_to(server, str)\<close>: the value of \<^verbatim>\<open>parse_port_string\<close> is not looked at; the
  address it wrote goes to \<^verbatim>\<open>open_listening_socket\<close> whatever the parser returned.
\<close>

definition ts_bind_to ::
  "os_oracle \<Rightarrow> ts_server \<Rightarrow> string \<Rightarrow> os_world \<Rightarrow> int \<times> ts_server \<times> os_world" where
  "ts_bind_to os server str w =
     (case open_listening_socket os (snd (parse_port_string str)) w of
        (s, sa, w') \<Rightarrow> (uint (ntohs (sin_port sa)), server\<lparr>listening_sock := s\<rparr>, w'))"

text \<open>
  \<^verbatim>\<open>ts_connect(server, host, port, use_ssl, param)\<close>; \<open>host = None\<close> is \<^verbatim>\<open>NULL\<close>. The
  macro \<^verbatim>\<open>MONGOOSE_USE_SSL\<close> is undefined, so a true \<^verbatim>\<open>use_ssl\<close> returns 0.
\<close>

definition ts_connect ::
  "os_oracle \<Rightarrow> ts_server \<Rightarrow> string option \<Rightarrow> int \<Rightarrow> bool \<Rightarrow> nat \<Rightarrow> os_world \<Rightarrow>
   int \<times> ts_server \<times> os_world" where
  "ts_connect os server host port use_ssl param w =
     (case host of
        None \<Rightarrow> (0, server, w)
      | Some h \<Rightarrow>
          (case sys_gethostbyname os (clock w) h of
             None \<Rightarrow> (0, server, tick w)
           | Some addr \<Rightarrow>
               (let s = sys_socket os (clock (tick w)); w2 = opened s (tick (tick w)) in
                if s = INVALID_SOCKET then (0, server, w2)
                else if use_ssl then (0, server, w2)
                else
                  (case sys_connect os (clock w2) s
                          \<lparr>sin_family = AF_INET, sin_port = htons (word_of_int port),
                           sin_addr = addr\<rparr> of
                     (r, e) \<Rightarrow>
                       if is_error r e then (0, server, tick w2)
                       else if \<not> sys_malloc os (clock (tick w2)) then
                         (0, server, closesocket s (tick (tick w2)))
                       else
                         (1,
                          server\<lparr>active_connections :=
                            zeroed_connection\<lparr>sock := s, connection_data := param,
                                              flags := {TSF_CONNECTING}\<rparr>
                            # active_connections server\<rparr>,
                          tick (tick w2))))))"

text \<open>
  \<^verbatim>\<open>accept_conn(server)\<close>: the new connection (\<open>None\<close> is \<^verbatim>\<open>NULL\<close>), which is then the head
  of the server's list.
\<close>

definition accept_conn ::
  "os_oracle \<Rightarrow> ts_server \<Rightarrow> os_world \<Rightarrow> ts_connection option \<times> ts_server \<times> os_world" where
  "accept_conn os server w =
     (let s = sys_accept os (clock w); w1 = opened s (tick w) in
      if s = INVALID_SOCKET then (None, server, closesocket s w1)
      else if \<not> sys_malloc os (clock w1) then (None, server, closesocket s (tick w1))
      else
        (case call_user (callback server)
                (zeroed_connection\<lparr>sock := s, flags := {TSF_ACCEPTED}\<rparr>) TS_ACCEPT None (tick w1) of
           (c, p, w2) \<Rightarrow>
             (Some c, server\<lparr>active_connections := c # active_connections server\<rparr>, w2)))"

subsection \<open>Reading and writing\<close>

text \<open>
  \<^verbatim>\<open>read_from_socket(conn)\<close>. On a connecting socket \<^verbatim>\<open>getsockopt\<close> writes the pending
  error to \<^verbatim>\<open>ok\<close> when it succeeds; \<^verbatim>\<open>ok\<close> keeps its initial 1 otherwise. On any other
  socket \<^verbatim>\<open>recv\<close> returns \<open>n\<close> and, when \<open>n\<close> is positive, the bytes \<open>bs\<close> in \<^verbatim>\<open>buf\<close>.
  \<^verbatim>\<open>TS_REALLOC\<close> is called, and answered by the oracle, only when the bytes do not fit
  below the capacity.
\<close>

definition read_from_socket ::
  "os_oracle \<Rightarrow> ts_callback option \<Rightarrow> ts_connection \<Rightarrow> os_world \<Rightarrow>
   fault + (ts_connection \<times> os_world)" where
  "read_from_socket os cb conn w =
     (if TSF_CONNECTING \<in> flags conn then
        (case sys_getsockopt os (clock w) of
           (ret, v) \<Rightarrow>
             (case call_user cb (conn\<lparr>flags := flags conn - {TSF_CONNECTING}\<rparr>) TS_CONNECT
                     (Some (if ret = 0 then v else 1)) (tick w) of
                (conn1, ok, w1) \<Rightarrow>
                  Inr (if ok = Some 0 then conn1
                       else conn1\<lparr>flags := insert TSF_CLOSE_IMMEDIATELY (flags conn1)\<rparr>, w1)))
      else
        (case sys_recv os (clock w) (sock conn) of
           (n, e, bs) \<Rightarrow>
             if is_error n e then
               (case call_user cb (conn\<lparr>flags := insert TSF_CLOSE_IMMEDIATELY (flags conn)\<rparr>)
                       TS_RECV None (tick w) of
                  (conn1, p, w1) \<Rightarrow> Inr (conn1, w1))
             else if 0 < n then
               (case iobuf_append (recv_iobuf conn) bs n (sys_realloc os (clock (tick w))) of
                  Inl f \<Rightarrow> Inl f
                | Inr (k, io) \<Rightarrow>
                    (case call_user cb (conn\<lparr>recv_iobuf := io\<rparr>) TS_RECV None
                            (if len (recv_iobuf conn) + n < size_iobuf (recv_iobuf conn)
                             then tick w else tick (tick w)) of
                       (conn1, p1, w1) \<Rightarrow>
                         (case call_user cb conn1 TS_RECV None w1 of
                            (conn2, p2, w2) \<Rightarrow> Inr (conn2, w2))))
             else
               (case call_user cb conn TS_RECV None (tick w) of
                  (conn1, p, w1) \<Rightarrow> Inr (conn1, w1))))"

text \<open>
  Lines 442 to 451 of \<^verbatim>\<open>write_to_socket\<close>: the connection after \<^verbatim>\<open>send\<close> has returned
  \<open>n\<close> (with \<open>e\<close> in \<^verbatim>\<open>errno\<close>), before the \<^verbatim>\<open>SEND\<close> event.
\<close>

definition after_send :: "ts_connection \<Rightarrow> int \<Rightarrow> errno \<Rightarrow> ts_connection" where
  "after_send conn n e =
     (let conn1 =
            (if is_error n e then conn\<lparr>flags := insert TSF_CLOSE_IMMEDIATELY (flags conn)\<rparr>
             else if 0 < n then conn\<lparr>send_iobuf := iobuf_remove (send_iobuf conn) n\<rparr>
             else conn)
      in if len (send_iobuf conn1) = 0 \<and> TSF_FINISHED_SENDING_DATA \<in> flags conn1
         then conn1\<lparr>flags := insert TSF_CLOSE_IMMEDIATELY (flags conn1)\<rparr>
         else conn1)"

text \<open>\<^verbatim>\<open>write_to_socket(conn)\<close>: \<^verbatim>\<open>send\<close> is given the whole send buffer.\<close>

definition write_to_socket ::
  "os_oracle \<Rightarrow> ts_callback option \<Rightarrow> ts_connection \<Rightarrow> os_world \<Rightarrow> ts_connection \<times> os_world" where
  "write_to_socket os cb conn w =
     (case sys_send os (clock w) (sock conn)
             (take (nat (len (send_iobuf conn))) (buf (send_iobuf conn))) of
        (n, e) \<Rightarrow>
          (case call_user cb (after_send conn n e) TS_SEND None (tick w) of
             (conn1, p, w1) \<Rightarrow> (conn1, w1)))"

text \<open>
  A callback that, given \<^verbatim>\<open>SEND\<close> on the connection \<open>c\<close>, leaves the flags and the send
  buffer of \<open>c\<close> as they are; a server without a callback is one.
\<close>

definition send_callback_quiet :: "ts_callback option \<Rightarrow> ts_connection \<Rightarrow> bool" where
  "send_callback_quiet cb c =
     (case cb of
        None \<Rightarrow> True
      | Some f \<Rightarrow>
          flags (fst (f c TS_SEND None)) = flags c \<and>
          send_iobuf (fst (f c TS_SEND None)) = send_iobuf c)"

text \<open>\<^verbatim>\<open>ts_send(conn, buf, len)\<close>: \<^verbatim>\<open>iobuf_append\<close> on the send buffer.\<close>

definition ts_send ::
  "ts_connection \<Rightarrow> string \<Rightarrow> int \<Rightarrow> bool \<Rightarrow> fault + (int \<times> ts_connection)" where
  "ts_send conn bs n realloc_ok =
     (case iobuf_append (send_iobuf conn) bs n realloc_ok of
        Inl f \<Rightarrow> Inl f
      | Inr (k, io) \<Rightarrow> Inr (k, conn\<lparr>send_iobuf := io\<rparr>))"

subsection \<open>The poll loop\<close>

text \<open>An \<^verbatim>\<open>fd_set\<close> is the set of its descriptors; \<^verbatim>\<open>add_to_set\<close> also raises \<^verbatim>\<open>*max_fd\<close>.\<close>

definition add_to_set :: "int \<Rightarrow> int set \<Rightarrow> int \<Rightarrow> int set \<times> int" where
  "add_to_set s fds max_fd = (insert s fds, if max_fd < s then s else max_fd)"

text \<open>
  The first loop of \<^verbatim>\<open>ts_server_poll\<close> (lines 482 to 501), over the list from \<open>conn\<close> on:
  the connections left on the list, the two interest sets, \<^verbatim>\<open>max_fd\<close> and the world.
\<close>

fun poll_arm ::
  "ts_callback option \<Rightarrow> ts_connection list \<Rightarrow> int set \<Rightarrow> int set \<Rightarrow> int \<Rightarrow> os_world \<Rightarrow>
   ts_connection list \<times> int set \<times> int set \<times> int \<times> os_world" where
  "poll_arm cb [] read_set write_set max_fd w = ([], read_set, write_set, max_fd, w)"
| "poll_arm cb (conn # rest) read_set write_set max_fd w =
     (case call_user cb conn TS_POLL None w of
        (conn1, p, w1) \<Rightarrow>
          (case add_to_set (sock conn1) read_set max_fd of
             (rs1, m1) \<Rightarrow>
               (case (if TSF_CONNECTING \<in> flags conn1 then add_to_set (sock conn1) write_set m1
                      else (write_set, m1)) of
                  (ws1, m2) \<Rightarrow>
                    if 0 < len (send_iobuf conn1) \<and> TSF_BUFFER_BUT_DONT_SEND \<notin> flags conn1 then
                      (case add_to_set (sock conn1) ws1 m2 of
                         (ws2, m3) \<Rightarrow>
                           (case poll_arm cb rest rs1 ws2 m3 w1 of
                              (rest', r) \<Rightarrow> (conn1 # rest', r)))
                    else if TSF_CLOSE_IMMEDIATELY \<in> flags conn1 then
                      poll_arm cb rest rs1 ws1 m2 (close_conn cb conn1 w1)
                    else
                      (case poll_arm cb rest rs1 ws1 m2 w1 of
                         (rest', r) \<Rightarrow> (conn1 # rest', r)))))"

text \<open>
  The body of the second loop (lines 518 to 538) for one connection, with the sets
  \<^verbatim>\<open>select\<close> left.
\<close>

definition service_conn ::
  "os_oracle \<Rightarrow> ts_callback option \<Rightarrow> int \<Rightarrow> int set \<Rightarrow> int set \<Rightarrow> ts_connection \<Rightarrow> os_world \<Rightarrow>
   fault + (ts_connection \<times> os_world)" where
  "service_conn os cb current_time read_set write_set conn w =
     (case (if sock conn \<in> read_set
            then read_from_socket os cb (conn\<lparr>last_io_time := current_time\<rparr>) w
            else Inr (conn, w)) of
        Inl f \<Rightarrow> Inl f
      | Inr (conn1, w1) \<Rightarrow>
          if sock conn1 \<in> write_set then
            if TSF_CONNECTING \<in> flags conn1 then read_from_socket os cb conn1 w1
            else if TSF_BUFFER_BUT_DONT_SEND \<notin> flags conn1 then
              Inr (write_to_socket os cb (conn1\<lparr>last_io_time := current_time\<rparr>) w1)
            else Inr (conn1, w1)
          else Inr (conn1, w1))"

text \<open>The second loop (lines 517 to 539).\<close>

fun poll_service ::
  "os_oracle \<Rightarrow> ts_callback option \<Rightarrow> int \<Rightarrow> int set \<Rightarrow> int set \<Rightarrow> ts_connection list \<Rightarrow>
   os_world \<Rightarrow> fault + (ts_connection list \<times> os_world)" where
  "poll_service os cb current_time read_set write_set [] w = Inr ([], w)"
| "poll_service os cb current_time read_set write_set (conn # rest) w =
     (case service_conn os cb current_time read_set write_set conn w of
        Inl f \<Rightarrow> Inl f
      | Inr (conn1, w1) \<Rightarrow>
          (case poll_service os cb current_time read_set write_set rest w1 of
             Inl f \<Rightarrow> Inl f
           | Inr (rest', w2) \<Rightarrow> Inr (conn1 # rest', w2)))"

text \<open>
  The third loop (lines 542 to 550), over the list from \<open>conn\<close> on with the counter at
  \<open>num\<close>: the connections left on the list, the counter and the world.
\<close>

fun poll_reap ::
  "ts_callback option \<Rightarrow> ts_connection list \<Rightarrow> int \<Rightarrow> os_world \<Rightarrow>
   ts_connection list \<times> int \<times> os_world" where
  "poll_reap cb [] num w = ([], num, w)"
| "poll_reap cb (conn # rest) num w =
     (if TSF_CLOSE_IMMEDIATELY \<in> flags conn
      then poll_reap cb rest (num + 1) (close_conn cb conn w)
      else (case poll_reap cb rest (num + 1) w of (rest', r) \<Rightarrow> (conn # rest', r)))"

text \<open>
  \<^verbatim>\<open>ts_server_poll(server, milli)\<close>: the returned count, the server and the world. The
  timeout is \<^verbatim>\<open>milli / 1000\<close> seconds and \<^verbatim>\<open>(milli % 1000) * 1000\<close> microseconds, with
  C's truncating division.
\<close>

definition ts_server_poll ::
  "os_oracle \<Rightarrow> ts_server \<Rightarrow> int \<Rightarrow> os_world \<Rightarrow> fault + (int \<times> ts_server \<times> os_world)" where
  "ts_server_poll os server milli w =
     (let current_time = sys_time os (clock w) in
      if listening_sock server = INVALID_SOCKET then Inr (0, server, tick w)
      else
        (case add_to_set (listening_sock server) {} (- 1) of
           (rs0, m0) \<Rightarrow>
        (case poll_arm (callback server) (active_connections server) rs0 {} m0 (tick w) of
           (conns1, read_set, write_set, max_fd, w1) \<Rightarrow>
        (case sys_select os (clock w1) (max_fd + 1) read_set write_set
                (milli sdiv 1000, (milli smod 1000) * 1000) of
           (ret, rs, ws) \<Rightarrow>
        (case (if 0 < ret then
                 (case (if listening_sock server \<in> rs
                        then (case accept_conn os (server\<lparr>active_connections := conns1\<rparr>) (tick w1) of
                                (None, sv, w2) \<Rightarrow> (active_connections sv, w2)
                              | (Some c, sv, w2) \<Rightarrow>
                                  (c\<lparr>last_io_time := current_time\<rparr> # tl (active_connections sv), w2))
                        else (conns1, tick w1)) of
                    (conns2, w3) \<Rightarrow>
                      poll_service os (callback server) current_time rs ws conns2 w3)
               else Inr (conns1, tick w1)) of
           Inl f \<Rightarrow> Inl f
         | Inr (conns3, w4) \<Rightarrow>
             (case poll_reap (callback server) conns3 0 w4 of
                (conns4, num, w5) \<Rightarrow>
                  Inr (num, server\<lparr>active_connections := conns4\<rparr>, w5)))))))"

subsection \<open>The links of the active list\<close>

text \<open>
  The list the loops above walk is, in the C code, threaded through the connection
  records: each record at an address has \<^verbatim>\<open>next\<close> and \<^verbatim>\<open>prev\<close>, and the server has the head
  \<^verbatim>\<open>active_connections\<close> (\<open>None\<close> is \<^verbatim>\<open>NULL\<close>). This part models the two macros on those
  links and the third loop of \<^verbatim>\<open>ts_server_poll\<close> as it follows them.
\<close>

type_synonym addr = nat

record conn_store =
  conn_at :: "addr \<Rightarrow> ts_connection"
  next_conn :: "addr \<Rightarrow> addr option"
  prev_conn :: "addr \<Rightarrow> addr option"
  head_conn :: "addr option"

definition ADD_CONNECTION :: "addr \<Rightarrow> conn_store \<Rightarrow> conn_store" where
  "ADD_CONNECTION c st =
     (let st1 = st\<lparr>next_conn := (next_conn st)(c := head_conn st), head_conn := Some c\<rparr> in
      case next_conn st1 c of
        None \<Rightarrow> st1
      | Some n \<Rightarrow> st1\<lparr>prev_conn := (prev_conn st1)(n := Some c)\<rparr>)"


text \<open>
  The addresses \<open>xs\<close> are the active list of a store: following \<^verbatim>\<open>next\<close> from the head
  visits them in order and ends at \<^verbatim>\<open>NULL\<close>, each \<^verbatim>\<open>prev\<close> points one step back, and no
  address occurs twice.
\<close>

fun next_path ::
  "(addr \<Rightarrow> addr option) \<Rightarrow> addr option \<Rightarrow> addr list \<Rightarrow> addr option \<Rightarrow> bool" where
  "next_path nx p [] q = (p = q)"
| "next_path nx p (a # as) q = (p = Some a \<and> next_path nx (nx a) as q)"

fun prev_path :: "(addr \<Rightarrow> addr option) \<Rightarrow> addr option \<Rightarrow> addr list \<Rightarrow> bool" where
  "prev_path pv q [] = True"
| "prev_path pv q (a # as) = (pv a = q \<and> prev_path pv (Some a) as)"

definition linked :: "conn_store \<Rightarrow> addr list \<Rightarrow> bool" where
  "linked st xs =
     (distinct xs \<and> next_path (next_conn st) (head_conn st) xs None \<and>
      prev_path (prev_conn st) None xs)"





subsection \<open>Sample states\<close>

text \<open>
  Concrete oracles, servers and connections at which the theorems below are evaluated.
  Under \<open>os_idle\<close> every allocation succeeds, \<^verbatim>\<open>socket\<close> returns descriptor 5, no
  connection is pending, a connect is in progress, and no descriptor is ready.
\<close>

definition os_idle :: os_oracle where
  "os_idle =
     \<lparr>sys_time = (\<lambda>t. 1000),
      sys_malloc = (\<lambda>t. True),
      sys_realloc = (\<lambda>t. True),
      sys_socket = (\<lambda>t. 5),
      sys_setsockopt = (\<lambda>t. 0),
      sys_bind = (\<lambda>t sa. 0),
      sys_listen = (\<lambda>t. 0),
      sys_getsockname = (\<lambda>t. None),
      sys_accept = (\<lambda>t. - 1),
      sys_gethostbyname = (\<lambda>t h. Some (htonl 0x7f000001)),
      sys_connect = (\<lambda>t s sa. (- 1, EINPROGRESS)),
      sys_getsockopt = (\<lambda>t. (0, 0)),
      sys_recv = (\<lambda>t s. (- 1, EAGAIN, [])),
      sys_send = (\<lambda>t s bs. (- 1, EAGAIN)),
      sys_select = (\<lambda>t nfds rs ws tv. (0, {}, {}))\<rparr>"

text \<open>Descriptor 4 is readable and its peer has closed: \<^verbatim>\<open>recv\<close> returns 0.\<close>

definition os_peer_closed :: os_oracle where
  "os_peer_closed =
     os_idle\<lparr>sys_select := (\<lambda>t nfds rs ws tv. (1, {4}, {})),
             sys_recv := (\<lambda>t s. (0, EOTHER 0, []))\<rparr>"

text \<open>\<^verbatim>\<open>recv\<close> delivers the five bytes \<open>hello\<close>.\<close>

definition os_hello :: os_oracle where
  "os_hello = os_idle\<lparr>sys_recv := (\<lambda>t s. (5, EOTHER 0, ''hello''))\<rparr>"

text \<open>\<^verbatim>\<open>connect\<close> fails at once with \<^verbatim>\<open>ECONNREFUSED\<close> (errno 111).\<close>

definition os_refused :: os_oracle where
  "os_refused = os_idle\<lparr>sys_connect := (\<lambda>t s sa. (- 1, EOTHER 111))\<rparr>"

text \<open>
  Every step of opening a listener succeeds, and \<^verbatim>\<open>getsockname\<close> reports the wildcard
  address with port 80.
\<close>

definition os_port80 :: os_oracle where
  "os_port80 =
     os_idle\<lparr>sys_getsockname :=
       (\<lambda>t. Some \<lparr>sin_family = AF_INET, sin_port = htons 80, sin_addr = htonl 0\<rparr>)\<rparr>"

text \<open>\<^verbatim>\<open>send\<close> writes all three bytes it is given.\<close>

definition os_sent :: os_oracle where
  "os_sent = os_idle\<lparr>sys_send := (\<lambda>t s bs. (3, EOTHER 0))\<rparr>"

definition world0 :: os_world where
  "world0 = \<lparr>open_socks = {3, 4}, events = [], clock = 0\<rparr>"

definition conn4 :: ts_connection where
  "conn4 = zeroed_connection\<lparr>sock := 4, flags := {TSF_ACCEPTED}\<rparr>"

text \<open>A server listening on descriptor 3 with one accepted connection, and no callback.\<close>

definition server3 :: ts_server where
  "server3 =
     \<lparr>listening_sock = 3, active_connections = [conn4], server_data = 0, callback = None\<rparr>"


text \<open>A connection with \<open>bye\<close> to send and the user's end-of-stream mark.\<close>

definition conn_bye :: ts_connection where
  "conn_bye =
     conn4\<lparr>send_iobuf := \<lparr>buf = ''bye'', len = 3, size_iobuf = 6\<rparr>,
           flags := {TSF_ACCEPTED, TSF_FINISHED_SENDING_DATA}\<rparr>"

text \<open>
  A connection with \<open>bye\<close> to send and no end-of-stream mark yet, and a callback that
  sets the mark when it is told the data has been written.
\<close>

definition conn_bye_pending :: ts_connection where
  "conn_bye_pending =
     conn4\<lparr>send_iobuf := \<lparr>buf = ''bye'', len = 3, size_iobuf = 6\<rparr>\<rparr>"

definition finish_on_send :: ts_callback where
  "finish_on_send c ev p =
     (if ev = TS_SEND then c\<lparr>flags := insert TSF_FINISHED_SENDING_DATA (flags c)\<rparr> else c, 0)"

text \<open>A callback that only records a value in the connection's user data.\<close>

definition note_on_send :: ts_callback where
  "note_on_send c ev p = (c\<lparr>connection_data := 7\<rparr>, 0)"


section \<open>Properties\<close>

subsection \<open>Byte buffer\<close>

lemma iobuf_append_Inr:
  assumes "iobuf_append io bs n realloc_ok = Inr (k, io')"
  shows "iobuf_ok io \<and> append_in_range io n"
  using assms
  by (auto simp: iobuf_append_def iobuf_ok_def append_in_range_def Let_def split: if_splits)

lemma iobuf_append_keeps_ok:
  assumes "iobuf_append io bs n realloc_ok = Inr (k, io')"
  shows "iobuf_ok io'"
  using assms
  by (auto simp: iobuf_append_def iobuf_ok_def Let_def split: if_splits)

lemma iobuf_remove_keeps_ok: "iobuf_ok io \<Longrightarrow> iobuf_ok (iobuf_remove io n)"
  by (auto simp: iobuf_remove_def iobuf_ok_def)

text \<open>
  C7, the claim as stated fails: a negative count is returned as it is, not as zero
  (the branch for \<^verbatim>\<open>len <= 0\<close> is empty and \<^verbatim>\<open>len\<close> is returned), through \<^verbatim>\<open>ts_send\<close>
  as well.
\<close>

theorem iobuf_append_negative_count:
  "iobuf_append zeroed_iobuf [] (- 1) True = Inr (- 1, zeroed_iobuf) \<and>
   ts_send conn4 [] (- 1) True = Inr (- 1, conn4)"
  by (simp add: iobuf_append_def ts_send_def zeroed_iobuf_def conn4_def zeroed_connection_def)

text \<open>
  C7, amended. For every call of \<^verbatim>\<open>iobuf_append\<close> (and of \<^verbatim>\<open>ts_send\<close>, which hands its
  arguments to it) on a buffer with \<open>0 \<le> len \<le> size\<close> and a count \<open>n\<close> whose arithmetic
  stays inside \<^verbatim>\<open>int\<close>, the call returns. If \<open>n \<le> 0\<close> it returns \<open>n\<close> itself and leaves the
  buffer unchanged. Otherwise the returned \<open>k\<close> is the number of bytes the length grew
  by: \<open>n\<close> when the bytes fit below the capacity or the reallocation succeeds (the
  first \<open>n\<close> bytes of the data then follow the old contents), and zero, with the buffer
  unmodified, when the reallocation fails.
\<close>

theorem iobuf_append_returns_growth:
  assumes "iobuf_ok io" and "append_in_range io n"
  shows "\<exists>k io'. iobuf_append io bs n realloc_ok = Inr (k, io') \<and>
           ts_send (conn\<lparr>send_iobuf := io\<rparr>) bs n realloc_ok = Inr (k, conn\<lparr>send_iobuf := io'\<rparr>) \<and>
           (n \<le> 0 \<longrightarrow> k = n \<and> io' = io) \<and>
           (0 < n \<longrightarrow> len io' = len io + k \<and>
              (if len io + n < size_iobuf io \<or> realloc_ok
               then k = n \<and> buf io' = take (nat (len io)) (buf io) @ take (nat n) bs
               else k = 0 \<and> io' = io))"
  using assms
  by (auto simp: iobuf_append_def ts_send_def iobuf_ok_def append_in_range_def Let_def)

theorem iobuf_append_returns_growth_witness:
  "iobuf_ok \<lparr>buf = ''ab'', len = 2, size_iobuf = 4\<rparr> \<and>
   append_in_range \<lparr>buf = ''ab'', len = 2, size_iobuf = 4\<rparr> 1 \<and>
   iobuf_append \<lparr>buf = ''ab'', len = 2, size_iobuf = 4\<rparr> ''c'' 1 False =
     Inr (1, \<lparr>buf = ''abc'', len = 3, size_iobuf = 4\<rparr>) \<and>
   iobuf_append \<lparr>buf = ''ab'', len = 2, size_iobuf = 4\<rparr> ''cd'' 2 False =
     Inr (0, \<lparr>buf = ''ab'', len = 2, size_iobuf = 4\<rparr>)"
  using iobuf_append_returns_growth
    [of "\<lparr>buf = ''ab'', len = 2, size_iobuf = 4\<rparr>" 1 "''c''" False conn4]
  by (simp add: iobuf_ok_def append_in_range_def INT_MAX_def iobuf_append_def)

text \<open>
  C9. After every call of \<^verbatim>\<open>iobuf_append\<close> that returns a positive count the length is
  strictly below the capacity. The growth test is the strict \<^verbatim>\<open>length + n < capacity\<close>:
  an append that would fill the buffer exactly takes the reallocation branch, which
  sets the capacity to \<open>(length + n) * 2\<close>.
\<close>

theorem iobuf_append_never_full:
  "(iobuf_append io bs n realloc_ok = Inr (k, io') \<longrightarrow> 0 < k \<longrightarrow> len io' < size_iobuf io') \<and>
   (iobuf_ok io \<longrightarrow> 0 < n \<longrightarrow> len io + n = size_iobuf io \<longrightarrow> 2 * size_iobuf io \<le> INT_MAX \<longrightarrow>
      realloc_ok \<longrightarrow>
      iobuf_append io bs n realloc_ok =
        Inr (n, io\<lparr>buf := take (nat (len io)) (buf io) @ take (nat n) bs,
                   len := len io + n, size_iobuf := 2 * (len io + n)\<rparr>))"
  by (auto simp: iobuf_append_def iobuf_ok_def INT_MAX_def Let_def split: if_splits)

theorem iobuf_append_never_full_witness:
  "iobuf_append \<lparr>buf = ''ab'', len = 2, size_iobuf = 4\<rparr> ''cd'' 2 True =
     Inr (2, \<lparr>buf = ''abcd'', len = 4, size_iobuf = 8\<rparr>) \<and>
   iobuf_ok \<lparr>buf = ''ab'', len = 2, size_iobuf = 4\<rparr> \<and>
   len \<lparr>buf = ''ab'', len = 2, size_iobuf = 4\<rparr> + 2 =
     size_iobuf \<lparr>buf = ''ab'', len = 2, size_iobuf = 4\<rparr> \<and>
   2 * size_iobuf \<lparr>buf = ''ab'', len = 2, size_iobuf = 4\<rparr> \<le> INT_MAX \<and>
   len \<lparr>buf = ''abcd'', len = 4, size_iobuf = 8\<rparr> <
     size_iobuf \<lparr>buf = ''abcd'', len = 4, size_iobuf = 8\<rparr>"
  using iobuf_append_never_full
    [of "\<lparr>buf = ''ab'', len = 2, size_iobuf = 4\<rparr>" "''cd''" 2 True 2
        "\<lparr>buf = ''abcd'', len = 4, size_iobuf = 8\<rparr>"]
  by (simp add: iobuf_ok_def INT_MAX_def)

subsection \<open>Address parser and bind\<close>

text \<open>
  What the parser returns depends on the port and on the character after the consumed
  text only: the port may be anything up to \<open>0xffff\<close>, zero included, and the four
  components of a literal are not looked at.
\<close>

lemma parse_port_string_ipv4:
  assumes "sscanf_ipv4 str = Some (a, b, c, d, port, n)"
  shows "parse_port_string str =
           (if port \<le> 0xffff \<and> str_at str n = CHR 0x00 then 1 else 0,
            \<lparr>sin_family = AF_INET, sin_port = htons (ucast port),
             sin_addr = htonl (push_bit 24 a OR push_bit 16 b OR push_bit 8 c OR d)\<rparr>)"
  using assms by (simp add: parse_port_string_def)

lemma parse_port_string_port_only:
  assumes "sscanf_ipv4 str = None" and "sscanf_port str = Some (port, n)"
  shows "parse_port_string str =
           (if port \<le> 0xffff \<and> str_at str n = CHR 0x00 then 1 else 0,
            \<lparr>sin_family = AF_INET, sin_port = htons (ucast port), sin_addr = htonl 0\<rparr>)"
  using assms by (simp add: parse_port_string_def)

text \<open>
  C3, at the failing input. The parser returns 1 for the string \<open>0\<close>, with port zero:
  the test is \<^verbatim>\<open>port <= 0xffff\<close>, which zero passes, although the comment beside
  \<^verbatim>\<open>port = 0\<close> calls that port invalid. The empty string, on which neither format
  matches, is accepted the same way.
\<close>

theorem parse_port_string_accepts_zero:
  "parse_port_string ''0'' =
     (1, \<lparr>sin_family = AF_INET, sin_port = htons 0, sin_addr = htonl 0\<rparr>) \<and>
   parse_port_string [] =
     (1, \<lparr>sin_family = AF_INET, sin_port = htons 0, sin_addr = htonl 0\<rparr>)"
  by (simp add: parse_port_string_def sscanf_ipv4_def sscanf_port_def scan_u_def scan_lit_def
      isspace_def isdigit_def str_at_def)

text \<open>
  C10. The parser has no range check on the four components of an IPv4 literal: on
  \<open>999.0.0.1:80\<close> the first component is 999, the port is valid, all twelve characters
  are consumed, and the parser returns 1; the address is the shifted components
  OR-ed together in 32 bits, here \<open>0xE7000001\<close>.
\<close>

theorem parse_port_string_oversized_octet:
  "sscanf_ipv4 ''999.0.0.1:80'' = Some (999, 0, 0, 1, 80, 12) \<and>
   parse_port_string ''999.0.0.1:80'' =
     (1, \<lparr>sin_family = AF_INET, sin_port = htons 80,
         sin_addr = htonl (push_bit 24 999 OR push_bit 16 0 OR push_bit 8 0 OR 1)\<rparr>) \<and>
   ntohl (sin_addr (snd (parse_port_string ''999.0.0.1:80''))) = 0xE7000001"
  by (simp add: parse_port_string_def sscanf_ipv4_def sscanf_port_def scan_u_def scan_lit_def
      isspace_def isdigit_def str_at_def htonl_def)

text \<open>
  \<^verbatim>\<open>ts_bind_to\<close> never looks at what the parser returned: two strings for which the
  parser wrote the same address give the same result, whatever it returned for each.
\<close>

lemma ts_bind_to_ignores_verdict:
  assumes "snd (parse_port_string s1) = snd (parse_port_string s2)"
  shows "ts_bind_to os server s1 w = ts_bind_to os server s2 w"
  using assms by (simp add: ts_bind_to_def)

text \<open>
  C4, at the failing input. The parser rejects \<open>80x\<close> (it returns 0), yet \<^verbatim>\<open>ts_bind_to\<close>
  opens a listening socket on the port the parser had already stored, and returns
  80: descriptor 5 is open and is the server's listener.
\<close>

theorem ts_bind_to_ignores_parse_failure:
  "fst (parse_port_string ''80x'') = 0 \<and>
   ts_bind_to os_port80 (ts_server_init 0 None) ''80x'' world0 =
     (80, (ts_server_init 0 None)\<lparr>listening_sock := 5\<rparr>,
      \<lparr>open_socks = {3, 4, 5}, events = [], clock = 5\<rparr>)"
  by (auto simp add: parse_port_string_def sscanf_ipv4_def sscanf_port_def scan_u_def
      scan_lit_def isspace_def isdigit_def str_at_def htonl_def htons_def ts_bind_to_def
      open_listening_socket_def os_port80_def os_idle_def world0_def tick_def opened_def
      closesocket_def INVALID_SOCKET_def ts_server_init_def Let_def)

subsection \<open>Outbound connect\<close>

text \<open>
  Whenever \<^verbatim>\<open>connect\<close> fails hard, \<^verbatim>\<open>ts_connect\<close> returns 0 and leaves the server as it
  was, and the socket it created stays open.
\<close>

lemma ts_connect_hard_error:
  assumes "sys_gethostbyname os (clock w) h = Some addr"
    and "sys_socket os (clock (tick w)) = s" and "s \<noteq> INVALID_SOCKET" and "\<not> use_ssl"
    and "sys_connect os (clock (opened s (tick (tick w)))) s
           \<lparr>sin_family = AF_INET, sin_port = htons (word_of_int port), sin_addr = addr\<rparr> = (r, e)"
    and "is_error r e"
  shows "ts_connect os server (Some h) port use_ssl param w =
           (0, server, tick (opened s (tick (tick w)))) \<and>
         s \<in> open_socks (tick (opened s (tick (tick w))))"
  using assms by (simp add: ts_connect_def Let_def opened_def tick_def)

text \<open>
  C5, at the failing input. \<^verbatim>\<open>connect\<close> fails with \<^verbatim>\<open>ECONNREFUSED\<close>: \<^verbatim>\<open>ts_connect\<close> returns
  0 and links no connection, but descriptor 5, which it created, is still open (the
  branch returns without \<^verbatim>\<open>closesocket\<close>, which the allocation-failure branch next to
  it calls).
\<close>

theorem ts_connect_leaves_socket_open:
  "ts_connect os_refused (ts_server_init 0 None) (Some ''localhost'') 80 False 0 world0 =
     (0, ts_server_init 0 None, \<lparr>open_socks = {3, 4, 5}, events = [], clock = 3\<rparr>)"
  by (auto simp add: ts_connect_def os_refused_def os_idle_def world0_def tick_def opened_def
      closesocket_def INVALID_SOCKET_def ts_server_init_def is_error_def Let_def)

subsection \<open>Reading and writing\<close>

lemma call_user_events:
  "call_user cb conn ev p w = (conn', p', w') \<Longrightarrow> events w' = events w @ [(sock conn, ev)]"
  by (auto simp: call_user_def Let_def split: option.splits)

text \<open>
  One receive pass on a connection that is not connecting emits \<^verbatim>\<open>RECV\<close> twice when the
  read returned bytes and once when it returned none.
\<close>

lemma read_from_socket_recv_events:
  assumes "TSF_CONNECTING \<notin> flags conn"
    and "sys_recv os (clock w) (sock conn) = (n, e, bs)"
    and "read_from_socket os cb conn w = Inr (conn', w')"
  shows "map snd (drop (length (events w)) (events w')) =
           (if 0 < n then [TS_RECV, TS_RECV] else [TS_RECV]) \<and>
         length (events w') = length (events w) + (if 0 < n then 2 else 1)"
  using assms
  by (auto simp: read_from_socket_def is_error_def tick_def
      split: prod.splits sum.splits if_splits dest!: call_user_events)

text \<open>
  C2, at the failing inputs. A read of the five bytes \<open>hello\<close> appends them and emits
  \<^verbatim>\<open>RECV\<close> twice; a read that would block (\<^verbatim>\<open>recv\<close> returns \<open>-1\<close> with \<^verbatim>\<open>EAGAIN\<close>) appends
  nothing and still emits \<^verbatim>\<open>RECV\<close> once.
\<close>

theorem read_from_socket_recv_twice:
  "read_from_socket os_hello None conn4 world0 =
     Inr (conn4\<lparr>recv_iobuf := \<lparr>buf = ''hello'', len = 5, size_iobuf = 10\<rparr>\<rparr>,
          \<lparr>open_socks = {3, 4}, events = [(4, TS_RECV), (4, TS_RECV)], clock = 2\<rparr>) \<and>
   read_from_socket os_idle None conn4 world0 =
     Inr (conn4, \<lparr>open_socks = {3, 4}, events = [(4, TS_RECV)], clock = 1\<rparr>)"
  by (simp add: read_from_socket_def os_hello_def os_idle_def conn4_def zeroed_connection_def
      zeroed_iobuf_def world0_def tick_def is_error_def call_user_def iobuf_append_def
      INT_MAX_def)

lemma after_send_sock: "sock (after_send conn n e) = sock conn"
  by (simp add: after_send_def Let_def)

text \<open>
  C8, the claim as stated fails. The check of the finished-sending flag comes before
  the \<^verbatim>\<open>SEND\<close> callback, and the callback may set that flag: here the three bytes are
  written, the callback marks the end of the stream, and the write pass leaves the
  connection with an empty send buffer and the finished-sending flag, but without the
  close-immediately flag.
\<close>

theorem write_to_socket_callback_sets_finished:
  "write_to_socket os_sent (Some finish_on_send) conn_bye_pending world0 =
     (conn_bye_pending\<lparr>send_iobuf := \<lparr>buf = [], len = 0, size_iobuf = 6\<rparr>,
                       flags := {TSF_ACCEPTED, TSF_FINISHED_SENDING_DATA}\<rparr>,
      \<lparr>open_socks = {3, 4}, events = [(4, TS_SEND)], clock = 1\<rparr>) \<and>
   len (send_iobuf (fst (write_to_socket os_sent (Some finish_on_send) conn_bye_pending
                           world0))) = 0 \<and>
   TSF_FINISHED_SENDING_DATA \<in>
     flags (fst (write_to_socket os_sent (Some finish_on_send) conn_bye_pending world0)) \<and>
   TSF_CLOSE_IMMEDIATELY \<notin>
     flags (fst (write_to_socket os_sent (Some finish_on_send) conn_bye_pending world0))"
  by (auto simp add: write_to_socket_def os_sent_def os_idle_def conn_bye_pending_def conn4_def
      finish_on_send_def zeroed_connection_def zeroed_iobuf_def world0_def tick_def
      is_error_def call_user_def after_send_def iobuf_remove_def Let_def)

text \<open>
  C8, amended. In every write pass, whatever \<^verbatim>\<open>send\<close> returned: the connection handed to
  the \<^verbatim>\<open>SEND\<close> callback has the close-immediately flag set if its send buffer is empty
  and its finished-sending flag is set; the \<^verbatim>\<open>SEND\<close> event is emitted after the write
  attempt, exactly once; and the connection the pass leaves has the same property
  whenever the server has no callback or the callback leaves the flags and the send
  buffer as they are.
\<close>

theorem write_to_socket_finished_sending:
  assumes "write_to_socket os cb conn w = (conn', w')"
    and "sys_send os (clock w) (sock conn)
           (take (nat (len (send_iobuf conn))) (buf (send_iobuf conn))) = (n, e)"
  shows "(len (send_iobuf (after_send conn n e)) = 0 \<and>
          TSF_FINISHED_SENDING_DATA \<in> flags (after_send conn n e) \<longrightarrow>
            TSF_CLOSE_IMMEDIATELY \<in> flags (after_send conn n e)) \<and>
         (conn', None, w') = call_user cb (after_send conn n e) TS_SEND None (tick w) \<and>
         events w' = events w @ [(sock conn, TS_SEND)] \<and>
         (cb = None \<longrightarrow> conn' = after_send conn n e) \<and>
         (send_callback_quiet cb (after_send conn n e) \<longrightarrow>
            len (send_iobuf conn') = 0 \<and> TSF_FINISHED_SENDING_DATA \<in> flags conn' \<longrightarrow>
            TSF_CLOSE_IMMEDIATELY \<in> flags conn')"
proof -
  let ?c = "after_send conn n e"
  have pre: "len (send_iobuf ?c) = 0 \<and> TSF_FINISHED_SENDING_DATA \<in> flags ?c \<longrightarrow>
             TSF_CLOSE_IMMEDIATELY \<in> flags ?c"
    by (auto simp: after_send_def Let_def)
  have run: "(conn', None, w') = call_user cb ?c TS_SEND None (tick w)"
    using assms by (auto simp: write_to_socket_def call_user_def Let_def split: prod.splits option.splits)
  have ev: "events w' = events w @ [(sock conn, TS_SEND)]"
    using run by (auto simp: call_user_def after_send_sock tick_def Let_def split: option.splits)
  have none: "cb = None \<longrightarrow> conn' = ?c"
    using run by (auto simp: call_user_def Let_def)
  have quiet: "send_callback_quiet cb ?c \<longrightarrow>
                 flags conn' = flags ?c \<and> send_iobuf conn' = send_iobuf ?c"
    using run by (auto simp: call_user_def send_callback_quiet_def Let_def split: option.splits)
  from pre run ev none quiet show ?thesis by simp
qed

theorem write_to_socket_finished_sending_witness:
  "write_to_socket os_sent (Some note_on_send) conn_bye world0 =
     (conn_bye\<lparr>send_iobuf := \<lparr>buf = [], len = 0, size_iobuf = 6\<rparr>,
               flags := {TSF_ACCEPTED, TSF_FINISHED_SENDING_DATA, TSF_CLOSE_IMMEDIATELY},
               connection_data := 7\<rparr>,
      \<lparr>open_socks = {3, 4}, events = [(4, TS_SEND)], clock = 1\<rparr>) \<and>
   sys_send os_sent (clock world0) (sock conn_bye)
      (take (nat (len (send_iobuf conn_bye))) (buf (send_iobuf conn_bye))) = (3, EOTHER 0) \<and>
   len (send_iobuf (after_send conn_bye 3 (EOTHER 0))) = 0 \<and>
   TSF_FINISHED_SENDING_DATA \<in> flags (after_send conn_bye 3 (EOTHER 0)) \<and>
   TSF_CLOSE_IMMEDIATELY \<in> flags (after_send conn_bye 3 (EOTHER 0)) \<and>
   send_callback_quiet (Some note_on_send) (after_send conn_bye 3 (EOTHER 0)) \<and>
   TSF_CLOSE_IMMEDIATELY \<in>
     flags (fst (write_to_socket os_sent (Some note_on_send) conn_bye world0))"
  using write_to_socket_finished_sending [of os_sent "Some note_on_send" conn_bye world0
      "conn_bye\<lparr>send_iobuf := \<lparr>buf = [], len = 0, size_iobuf = 6\<rparr>,
               flags := {TSF_ACCEPTED, TSF_FINISHED_SENDING_DATA, TSF_CLOSE_IMMEDIATELY},
               connection_data := 7\<rparr>"
      "\<lparr>open_socks = {3, 4}, events = [(4, TS_SEND)], clock = 1\<rparr>" 3 "EOTHER 0"]
  by (auto simp add: write_to_socket_def os_sent_def os_idle_def conn_bye_def conn4_def
      note_on_send_def send_callback_quiet_def zeroed_connection_def zeroed_iobuf_def
      world0_def tick_def is_error_def call_user_def after_send_def iobuf_remove_def Let_def)

subsection \<open>The poll loop\<close>

lemma poll_reap_survivors:
  "fst (poll_reap cb conns num w) = filter (\<lambda>c. TSF_CLOSE_IMMEDIATELY \<notin> flags c) conns"
  by (induction conns arbitrary: num w) (simp_all add: case_prod_beta)

lemma poll_reap_count:
  "fst (snd (poll_reap cb conns num w)) = num + int (length conns)"
  by (induction conns arbitrary: num w) (simp_all add: case_prod_beta)



text \<open>
  The macros do to the links what consing and removing do to the list, and the third
  loop on the links reaches \<^verbatim>\<open>NULL\<close> with the result \<open>poll_reap\<close> gives on the records.
\<close>

lemma next_path_upd: "u \<notin> set xs \<Longrightarrow> next_path (nx(u := v)) p xs q = next_path nx p xs q"
  by (induction xs arbitrary: p) auto

lemma prev_path_upd: "u \<notin> set xs \<Longrightarrow> prev_path (pv(u := v)) q xs = prev_path pv q xs"
  by (induction xs arbitrary: q) auto







lemma linked_ADD_CONNECTION:
  assumes "linked st xs" and "c \<notin> set xs" and "prev_conn st c = None"
  shows "linked (ADD_CONNECTION c st) (c # xs)"
  using assms
  by (cases xs)
     (auto simp: linked_def ADD_CONNECTION_def Let_def next_path_upd prev_path_upd)








text \<open>A poll of a server with a listener ends with the third loop.\<close>

lemma ts_server_poll_reap:
  assumes "ts_server_poll os server milli w = Inr (num, server', w')"
    and "listening_sock server \<noteq> INVALID_SOCKET"
  shows "\<exists>conns w1.
           poll_reap (callback server) conns 0 w1 = (active_connections server', num, w')"
  using assms
  apply (auto simp: ts_server_poll_def Let_def split: prod.splits sum.splits if_splits)
     apply blast+
  done

text \<open>
  What such a poll returns is the length of the list the third loop starts from: the
  connections that loop destroys are counted with those it keeps.
\<close>

lemma ts_server_poll_count:
  assumes "ts_server_poll os server milli w = Inr (num, server', w')"
    and "listening_sock server \<noteq> INVALID_SOCKET"
  shows "\<exists>conns. num = int (length conns) \<and>
           active_connections server' =
             filter (\<lambda>c. TSF_CLOSE_IMMEDIATELY \<notin> flags c) conns"
proof -
  obtain conns w1 where
    r: "poll_reap (callback server) conns 0 w1 = (active_connections server', num, w')"
    using ts_server_poll_reap [OF assms] by blast
  have "num = int (length conns)"
    using poll_reap_count [of "callback server" conns 0 w1] r by simp
  moreover have
    "active_connections server' = filter (\<lambda>c. TSF_CLOSE_IMMEDIATELY \<notin> flags c) conns"
    using poll_reap_survivors [of "callback server" conns 0 w1] r by simp
  ultimately show ?thesis by blast
qed

text \<open>
  C1, at the failing input. The server listens on descriptor 3 and holds one
  connection, whose peer has closed. The poll marks the connection in the second loop
  and destroys it in the third; the list is empty afterwards, and the poll returns 1:
  \<^verbatim>\<open>num_active_connections++\<close> runs for the destroyed connection too.
\<close>

theorem ts_server_poll_counts_reaped:
  "ts_server_poll os_peer_closed server3 0 world0 =
     Inr (1, server3\<lparr>active_connections := []\<rparr>,
          \<lparr>open_socks = {3}, events = [(4, TS_POLL), (4, TS_RECV), (4, TS_CLOSE)],
           clock = 3\<rparr>)"
  by (simp add: ts_server_poll_def os_peer_closed_def os_idle_def server3_def conn4_def
      zeroed_connection_def zeroed_iobuf_def world0_def tick_def is_error_def call_user_def
      INVALID_SOCKET_def add_to_set_def service_conn_def read_from_socket_def close_conn_def
      closesocket_def insert_Diff_if)




end
